theory Spec2Isabelle
  imports Complex_Main "HOL-Library.AList"
begin

section \<open>JavaScript numbers\<close>

text \<open>
  The interpreter computes with JavaScript numbers. They are modelled as the reals
  extended by the three special values of IEEE arithmetic that the code can produce
  (a division by zero gives an infinity, \<open>0/0\<close> gives NaN). Rounding and overflow of
  finite results are not modelled, and the negative zero is identified with zero (a
  finite non-zero number divided by zero takes the sign of the numerator).
\<close>

datatype jsnum = Fin real | PInf | NInf | NaN

fun jneg :: "jsnum \<Rightarrow> jsnum" where
  "jneg (Fin a) = Fin (- a)"
| "jneg PInf = NInf"
| "jneg NInf = PInf"
| "jneg NaN = NaN"

fun jadd :: "jsnum \<Rightarrow> jsnum \<Rightarrow> jsnum" where
  "jadd (Fin a) (Fin b) = Fin (a + b)"
| "jadd (Fin a) PInf = PInf"
| "jadd (Fin a) NInf = NInf"
| "jadd PInf (Fin b) = PInf"
| "jadd PInf PInf = PInf"
| "jadd PInf NInf = NaN"
| "jadd NInf (Fin b) = NInf"
| "jadd NInf NInf = NInf"
| "jadd NInf PInf = NaN"
| "jadd NaN y = NaN"
| "jadd x NaN = NaN"

definition jsub :: "jsnum \<Rightarrow> jsnum \<Rightarrow> jsnum" where
  "jsub x y = jadd x (jneg y)"

text \<open>An infinity of the given sign (\<open>True\<close> is positive).\<close>

definition infOfSign :: "bool \<Rightarrow> jsnum" where
  "infOfSign pos = (if pos then PInf else NInf)"

fun jmul :: "jsnum \<Rightarrow> jsnum \<Rightarrow> jsnum" where
  "jmul (Fin a) (Fin b) = Fin (a * b)"
| "jmul (Fin a) PInf = (if a = 0 then NaN else infOfSign (0 < a))"
| "jmul (Fin a) NInf = (if a = 0 then NaN else infOfSign (a < 0))"
| "jmul PInf (Fin b) = (if b = 0 then NaN else infOfSign (0 < b))"
| "jmul NInf (Fin b) = (if b = 0 then NaN else infOfSign (b < 0))"
| "jmul PInf PInf = PInf"
| "jmul PInf NInf = NInf"
| "jmul NInf PInf = NInf"
| "jmul NInf NInf = PInf"
| "jmul NaN y = NaN"
| "jmul x NaN = NaN"

fun jdiv :: "jsnum \<Rightarrow> jsnum \<Rightarrow> jsnum" where
  "jdiv (Fin a) (Fin b) =
     (if b = 0 then (if a = 0 then NaN else infOfSign (0 < a)) else Fin (a / b))"
| "jdiv (Fin a) PInf = Fin 0"
| "jdiv (Fin a) NInf = Fin 0"
| "jdiv PInf (Fin b) = infOfSign (0 \<le> b)"
| "jdiv NInf (Fin b) = infOfSign (b < 0)"
| "jdiv PInf PInf = NaN"
| "jdiv PInf NInf = NaN"
| "jdiv NInf PInf = NaN"
| "jdiv NInf NInf = NaN"
| "jdiv NaN y = NaN"
| "jdiv x NaN = NaN"

text \<open>The comparison \<open>x > y\<close>: false whenever an operand is NaN.\<close>

fun jgt :: "jsnum \<Rightarrow> jsnum \<Rightarrow> bool" where
  "jgt (Fin a) (Fin b) = (b < a)"
| "jgt (Fin a) NInf = True"
| "jgt PInf (Fin b) = True"
| "jgt PInf NInf = True"
| "jgt x y = False"

definition jlt :: "jsnum \<Rightarrow> jsnum \<Rightarrow> bool" where
  "jlt x y = jgt y x"

fun jabs :: "jsnum \<Rightarrow> jsnum" where
  "jabs (Fin a) = Fin \<bar>a\<bar>"
| "jabs PInf = PInf"
| "jabs NInf = PInf"
| "jabs NaN = NaN"

fun jsqrt :: "jsnum \<Rightarrow> jsnum" where
  "jsqrt (Fin a) = (if a < 0 then NaN else Fin (sqrt a))"
| "jsqrt PInf = PInf"
| "jsqrt NInf = NaN"
| "jsqrt NaN = NaN"

text \<open>Truthiness of a number: \<open>0\<close> and NaN are falsy.\<close>

fun numTruthy :: "jsnum \<Rightarrow> bool" where
  "numTruthy (Fin a) = (a \<noteq> 0)"
| "numTruthy NaN = False"
| "numTruthy x = True"

section \<open>Bars and indicator series\<close>

text \<open>
  A candle of the chart data. The field \<open>open\<close> of the source is \<open>openPrice\<close> here.
\<close>

record bar =
  time :: nat
  openPrice :: jsnum
  high :: jsnum
  low :: jsnum
  close :: jsnum
  volume :: jsnum

text \<open>
  An element of an indicator array: \<open>null\<close> (pushed during warm-up) or a number.
  Reading an array past its end gives \<open>undefined\<close>, which is \<open>None\<close> of \<open>arrayGet\<close>.
\<close>

datatype ival = Null | Num jsnum

definition arrayGet :: "'a list \<Rightarrow> nat \<Rightarrow> 'a option" where
  "arrayGet xs i = (if i < length xs then Some (xs ! i) else None)"

text \<open>
  \<open>Array.prototype.slice(start, end)\<close> for non-negative bounds: both are clamped to the
  length, and the result is empty when \<open>end \<le> start\<close>.
\<close>

definition slice :: "'a list \<Rightarrow> nat \<Rightarrow> nat \<Rightarrow> 'a list" where
  "slice xs start end = take (end - start) (drop start xs)"

datatype error = TypeError | Error string

section \<open>Technical indicators\<close>

text \<open>
  Periods are bar counts (natural numbers). In \<open>calculateSMA\<close> the test
  \<open>i < period - 1\<close> of the source is \<open>i + 1 < period\<close>, and the slice start
  \<open>i - period + 1\<close> is \<open>i + 1 - period\<close>, which is the same number in the branch that
  computes it.
\<close>

definition calculateSMA :: "bar list \<Rightarrow> nat \<Rightarrow> ival list" where
  "calculateSMA data period =
     map (\<lambda>i. if i + 1 < period then Null
              else Num (jdiv (foldl (\<lambda>acc candle. jadd acc (close candle)) (Fin 0)
                                (slice data (i + 1 - period) (i + 1)))
                             (Fin (real period))))
         [0..<length data]"

text \<open>The loop of \<open>calculateEMA\<close>: \<open>i\<close> is the loop index, \<open>prevEma\<close> the running value.\<close>

fun emaLoop :: "jsnum \<Rightarrow> jsnum \<Rightarrow> nat \<Rightarrow> bar list \<Rightarrow> jsnum list" where
  "emaLoop k prevEma i [] = []"
| "emaLoop k prevEma i (candle # rest) =
     (let nextEma = (if i = 0 then close candle
                     else jadd (jmul (close candle) k) (jmul prevEma (jsub (Fin 1) k)))
      in nextEma # emaLoop k nextEma (Suc i) rest)"

text \<open>
  \<open>calculateEMA(period)\<close> reads \<open>this.data[0].close\<close> before its loop: on an empty series
  \<open>this.data[0]\<close> is \<open>undefined\<close> and the read throws a TypeError.
\<close>

definition calculateEMA :: "bar list \<Rightarrow> nat \<Rightarrow> error + jsnum list" where
  "calculateEMA data period =
     (let k = jdiv (Fin 2) (jadd (Fin (real period)) (Fin 1))
      in case data of
           [] \<Rightarrow> Inl TypeError
         | first # _ \<Rightarrow> Inr (emaLoop k (close first) 0 data))"

record macdResult =
  macd :: "jsnum list"
  signal :: "jsnum list"
  histogram :: "jsnum list"

text \<open>
  \<open>calculateMACD\<close> calls \<open>this.calculateEMA(signalPeriod, macdLine.map(...))\<close>, but
  \<open>calculateEMA\<close> declares the single parameter \<open>period\<close> and always reads \<open>this.data\<close>:
  the second argument is dropped by the call, so the signal line is the EMA of the
  closes. The arrays that are subtracted index by index have the same length.
\<close>

definition calculateMACD :: "bar list \<Rightarrow> nat \<Rightarrow> nat \<Rightarrow> nat \<Rightarrow> error + macdResult" where
  "calculateMACD data fastPeriod slowPeriod signalPeriod =
     (case calculateEMA data fastPeriod of
        Inl e \<Rightarrow> Inl e
      | Inr fastEMA \<Rightarrow>
     (case calculateEMA data slowPeriod of
        Inl e \<Rightarrow> Inl e
      | Inr slowEMA \<Rightarrow>
     (let macdLine = map (\<lambda>(fast, slow). jsub fast slow) (zip fastEMA slowEMA)
      in case calculateEMA data signalPeriod of
           Inl e \<Rightarrow> Inl e
         | Inr signalLine \<Rightarrow>
             Inr \<lparr>macd = macdLine, signal = signalLine,
                  histogram = map (\<lambda>(m, s). jsub m s) (zip macdLine signalLine)\<rparr>)))"

text \<open>
  The series that the MACD line becomes when it is "treated as a close-price series":
  the objects \<open>{ close: val }\<close> built by \<open>calculateMACD\<close> (the other fields are not read
  by \<open>calculateEMA\<close>).
\<close>

definition closeOnly :: "jsnum \<Rightarrow> bar" where
  "closeOnly val = \<lparr>time = 0, openPrice = val, high = val, low = val, close = val, volume = Fin 0\<rparr>"

text \<open>
  The price changes of \<open>calculateRSI\<close>: \<open>gains\<close> and \<open>losses\<close> have one entry for each
  \<open>i\<close> from 1, so they are one shorter than the series.
\<close>

definition rsiGains :: "bar list \<Rightarrow> jsnum list" where
  "rsiGains data =
     map (\<lambda>i. let change = jsub (close (data ! i)) (close (data ! (i - 1)))
              in if jgt change (Fin 0) then change else Fin 0)
         [1..<length data]"

definition rsiLosses :: "bar list \<Rightarrow> jsnum list" where
  "rsiLosses data =
     map (\<lambda>i. let change = jsub (close (data ! i)) (close (data ! (i - 1)))
              in if jlt change (Fin 0) then jabs change else Fin 0)
         [1..<length data]"

text \<open>
  \<open>avgGain\<close> and \<open>avgLoss\<close> at index \<open>i\<close>: the sum of the slice
  \<open>slice(i - period + 1, i + 1)\<close> of the changes, divided by the period. It is computed
  only for \<open>period \<le> i\<close>, where the slice start is \<open>i + 1 - period\<close>.
\<close>

definition rsiAverage :: "jsnum list \<Rightarrow> nat \<Rightarrow> nat \<Rightarrow> jsnum" where
  "rsiAverage changes period i =
     jdiv (foldl (\<lambda>a b. jadd a b) (Fin 0) (slice changes (i + 1 - period) (i + 1)))
          (Fin (real period))"

definition calculateRSI :: "bar list \<Rightarrow> nat \<Rightarrow> ival list" where
  "calculateRSI data period =
     (let gains = rsiGains data; losses = rsiLosses data
      in map (\<lambda>i. if i < period then Null
                   else (let avgGain = rsiAverage gains period i;
                             avgLoss = rsiAverage losses period i;
                             rs = jdiv avgGain avgLoss
                         in Num (jsub (Fin 100) (jdiv (Fin 100) (jadd (Fin 1) rs)))))
             [0..<length data])"

text \<open>A number read from an indicator array in arithmetic: \<open>null\<close> converts to \<open>0\<close>.\<close>

fun toNumber :: "ival \<Rightarrow> jsnum" where
  "toNumber Null = Fin 0"
| "toNumber (Num x) = x"

record bollingerResult =
  upper :: "ival list"
  middle :: "ival list"
  lower :: "ival list"

definition calculateBollingerBands :: "bar list \<Rightarrow> nat \<Rightarrow> jsnum \<Rightarrow> bollingerResult" where
  "calculateBollingerBands data period stdDev =
     (let sma = calculateSMA data period;
          band = (\<lambda>sign i.
             if i + 1 < period then Null
             else (let sl = slice data (i + 1 - period) (i + 1);
                       mean = toNumber (sma ! i);
                       variance = jdiv (foldl (\<lambda>acc candle.
                                          jadd acc (jmul (jsub (close candle) mean)
                                                         (jsub (close candle) mean)))
                                        (Fin 0) sl)
                                       (Fin (real period));
                       standardDeviation = jsqrt variance
                   in Num (sign mean (jmul standardDeviation stdDev))))
      in \<lparr>upper = map (band jadd) [0..<length data],
          middle = sma,
          lower = map (band jsub) [0..<length data]\<rparr>)"

text \<open>\<open>candle.volume || 0\<close>: a falsy volume counts as \<open>0\<close>.\<close>

definition volumeOrZero :: "bar \<Rightarrow> jsnum" where
  "volumeOrZero candle = (if numTruthy (volume candle) then volume candle else Fin 0)"

definition calculateVolumeSMA :: "bar list \<Rightarrow> nat \<Rightarrow> ival list" where
  "calculateVolumeSMA data period =
     map (\<lambda>i. if i + 1 < period then Null
              else Num (jdiv (foldl (\<lambda>acc candle. jadd acc (volumeOrZero candle)) (Fin 0)
                                (slice data (i + 1 - period) (i + 1)))
                             (Fin (real period))))
         [0..<length data]"

section \<open>The state of the interpreter\<close>

text \<open>
  \<open>this.indicators\<close> is an object whose keys are enumerated in insertion order:
  an association list, where assigning to an existing key keeps its place.
\<close>

type_synonym indicatorMap = "(string \<times> ival list) list"

text \<open>
  \<open>getIndicatorValues(index)\<close>: every key whose array has an element other than
  \<open>undefined\<close> at the index. An indicator array is a truthy object, and its elements are
  \<open>null\<close> or numbers, so only a read past the end gives \<open>undefined\<close>.
\<close>

definition getIndicatorValues :: "indicatorMap \<Rightarrow> nat \<Rightarrow> (string \<times> ival) list" where
  "getIndicatorValues inds index =
     foldl (\<lambda>values (key, series).
              case arrayGet series index of
                None \<Rightarrow> values
              | Some v \<Rightarrow> AList.update key v values)
           [] inds"

datatype action = BUY | SELL

text \<open>
  A trade; \<open>profit\<close> and \<open>profitPercent\<close> are \<open>None\<close> when the object has no such
  property. The property \<open>time\<close> is \<open>tradeTime\<close> here. A marker has the properties
  \<open>time\<close>, \<open>position\<close>, \<open>color\<close>, \<open>shape\<close>, \<open>text\<close> and \<open>size\<close>.
\<close>

record trade =
  tradeTime :: nat
  action :: action
  price :: jsnum
  index :: nat
  profit :: "jsnum option"
  profitPercent :: "jsnum option"

record marker =
  markerTime :: nat
  position :: string
  color :: string
  shape :: string
  markerText :: string
  markerSize :: nat

text \<open>
  The five fields of the interpreter object: \<open>this.indicators\<close>, \<open>this.data\<close>,
  \<open>this.trades\<close>, \<open>this.buyMarkers\<close> and \<open>this.sellMarkers\<close>.
\<close>

record interp =
  thisIndicators :: indicatorMap
  thisData :: "bar list"
  thisTrades :: "trade list"
  thisBuyMarkers :: "marker list"
  thisSellMarkers :: "marker list"

text \<open>
  What the evaluation of a condition leaves behind. A condition runs inside the
  interpreter: a textual expression is handed to a direct \<open>eval\<close> in a method of the
  interpreter, with \<open>this\<close> and the local variables in scope, and a function may hold
  the interpreter in its closure. So an evaluation has a value and may have written the
  fields of the interpreter (\<open>interpAfter\<close>) and the bar object that the loop holds in
  \<open>currentData\<close> (\<open>barAfter\<close>; this object need no longer be the element of
  \<open>this.data\<close>). An evaluation is taken to return or throw, and to leave the strategy
  object and the built-in functions as they are.
\<close>

record 'v outcome =
  outcomeValue :: 'v
  interpAfter :: interp
  barAfter :: bar

section \<open>Strategy descriptors\<close>

text \<open>
  A strategy object. An absent (\<open>undefined\<close>) property is \<open>None\<close>; the property
  \<open>data\<close> is the field \<open>dataField\<close>. The properties
  \<open>sma\<close>, \<open>ema\<close>, \<open>rsi\<close>, \<open>macd\<close>, \<open>bollinger\<close> and \<open>volume\<close> of \<open>strategy.indicators\<close> are
  the fields \<open>smaPeriods\<close>, \<open>emaPeriods\<close>, \<open>rsiConfig\<close>, \<open>macdConfig\<close>, \<open>bollingerConfig\<close>
  and \<open>volumeConfig\<close>; the property \<open>period\<close> of each configuration object carries the
  name of its indicator.
\<close>

record rsiCfg =
  rsiPeriod :: "nat option"

record macdCfg =
  fastPeriod :: "nat option"
  slowPeriod :: "nat option"
  signalPeriod :: "nat option"

record bollingerCfg =
  bollingerPeriod :: "nat option"
  stdDev :: "jsnum option"

record volumeCfg =
  volumePeriod :: "nat option"

record indicatorSpec =
  smaPeriods :: "nat list option"
  emaPeriods :: "nat list option"
  rsiConfig :: "rsiCfg option"
  macdConfig :: "macdCfg option"
  bollingerConfig :: "bollingerCfg option"
  volumeConfig :: "volumeCfg option"

text \<open>
  A buy or sell condition: a function, a textual expression, or a truthy value that is
  neither. The function is called with the indicator values, \<open>this.data\<close> and the index;
  here it receives the indicator values, the interpreter (whose field \<open>thisData\<close> is its
  second argument), the current bar and the index, and it returns the exception it
  throws, or the truthiness of its value with what it has written.
\<close>

datatype predicate =
    Callable "(string \<times> ival) list \<Rightarrow> interp \<Rightarrow> bar \<Rightarrow> nat \<Rightarrow> error + bool outcome"
  | Expression string
  | Other

record conditionSet =
  buy :: "predicate option"
  sell :: "predicate option"

record strategy =
  name :: "string option"
  indicators :: "indicatorSpec option"
  conditions :: "conditionSet option"
  dataField :: "bar list option"

text \<open>\<open>strategy.indicators?.x\<close>: \<open>undefined\<close> when \<open>strategy.indicators\<close> is.\<close>

definition optChain :: "strategy \<Rightarrow> (indicatorSpec \<Rightarrow> 'a option) \<Rightarrow> 'a option" where
  "optChain s field = (case indicators s of None \<Rightarrow> None | Some spec \<Rightarrow> field spec)"

text \<open>\<open>p || d\<close> for an optional period: \<open>undefined\<close> and \<open>0\<close> are falsy.\<close>

definition periodOr :: "nat option \<Rightarrow> nat \<Rightarrow> nat" where
  "periodOr p d = (case p of None \<Rightarrow> d | Some n \<Rightarrow> if n = 0 then d else n)"

definition numberOr :: "jsnum option \<Rightarrow> jsnum \<Rightarrow> jsnum" where
  "numberOr x d = (case x of None \<Rightarrow> d | Some y \<Rightarrow> if numTruthy y then y else d)"

text \<open>The decimal text of a period inside a template string such as \<open>sma${period}\<close>.\<close>

fun showNat :: "nat \<Rightarrow> string" where
  "showNat n = (if n < 10 then [''0123456789'' ! n]
                else showNat (n div 10) @ [''0123456789'' ! (n mod 10)])"

section \<open>Computing the indicators\<close>

definition smaStep :: "bar list \<Rightarrow> indicatorMap \<Rightarrow> nat \<Rightarrow> indicatorMap" where
  "smaStep data inds period =
     AList.update (''sma'' @ showNat period) (calculateSMA data period) inds"

fun emaEach :: "bar list \<Rightarrow> indicatorMap \<Rightarrow> nat list \<Rightarrow> error + indicatorMap" where
  "emaEach data inds [] = Inr inds"
| "emaEach data inds (period # rest) =
     (case calculateEMA data period of
        Inl e \<Rightarrow> Inl e
      | Inr series \<Rightarrow>
          emaEach data (AList.update (''ema'' @ showNat period) (map Num series) inds) rest)"

definition addSMA :: "strategy \<Rightarrow> bar list \<Rightarrow> indicatorMap \<Rightarrow> indicatorMap" where
  "addSMA s data inds =
     (case optChain s smaPeriods of
        None \<Rightarrow> inds
      | Some periods \<Rightarrow> foldl (smaStep data) inds periods)"

definition addEMA :: "strategy \<Rightarrow> bar list \<Rightarrow> indicatorMap \<Rightarrow> error + indicatorMap" where
  "addEMA s data inds =
     (case optChain s emaPeriods of
        None \<Rightarrow> Inr inds
      | Some periods \<Rightarrow> emaEach data inds periods)"

definition addRSI :: "strategy \<Rightarrow> bar list \<Rightarrow> indicatorMap \<Rightarrow> indicatorMap" where
  "addRSI s data inds =
     (case optChain s rsiConfig of
        None \<Rightarrow> inds
      | Some cfg \<Rightarrow> AList.update ''rsi'' (calculateRSI data (periodOr (rsiPeriod cfg) 14)) inds)"

definition addMACD :: "strategy \<Rightarrow> bar list \<Rightarrow> indicatorMap \<Rightarrow> error + indicatorMap" where
  "addMACD s data inds =
     (case optChain s macdConfig of
        None \<Rightarrow> Inr inds
      | Some cfg \<Rightarrow>
          (case calculateMACD data (periodOr (fastPeriod cfg) 12) (periodOr (slowPeriod cfg) 26)
                                   (periodOr (signalPeriod cfg) 9) of
             Inl e \<Rightarrow> Inl e
           | Inr res \<Rightarrow>
               Inr (AList.update ''macdHistogram'' (map Num (histogram res))
                   (AList.update ''macdSignal'' (map Num (signal res))
                   (AList.update ''macd'' (map Num (macd res)) inds)))))"

definition addBollinger :: "strategy \<Rightarrow> bar list \<Rightarrow> indicatorMap \<Rightarrow> indicatorMap" where
  "addBollinger s data inds =
     (case optChain s bollingerConfig of
        None \<Rightarrow> inds
      | Some cfg \<Rightarrow>
          (let res = calculateBollingerBands data (periodOr (bollingerPeriod cfg) 20)
                                             (numberOr (stdDev cfg) (Fin 2))
           in AList.update ''bbLower'' (lower res)
             (AList.update ''bbMiddle'' (middle res)
             (AList.update ''bbUpper'' (upper res) inds))))"

definition addVolume :: "strategy \<Rightarrow> bar list \<Rightarrow> indicatorMap \<Rightarrow> indicatorMap" where
  "addVolume s data inds =
     (case optChain s volumeConfig of
        None \<Rightarrow> inds
      | Some cfg \<Rightarrow>
          AList.update ''volumeSMA'' (calculateVolumeSMA data (periodOr (volumePeriod cfg) 20)) inds)"

text \<open>
  \<open>calculateIndicators\<close>: the six blocks of the source in their order, starting from the
  empty object; an exception of \<open>calculateEMA\<close> ends the call.
\<close>

definition calculateIndicators :: "strategy \<Rightarrow> bar list \<Rightarrow> error + indicatorMap" where
  "calculateIndicators s data =
     (case addEMA s data (addSMA s data []) of
        Inl e \<Rightarrow> Inl e
      | Inr inds2 \<Rightarrow>
          (case addMACD s data (addRSI s data inds2) of
             Inl e \<Rightarrow> Inl e
           | Inr inds4 \<Rightarrow> Inr (addVolume s data (addBollinger s data inds4))))"

text \<open>\<open>Math.max(...periods, 0)\<close>.\<close>

definition mathMax :: "nat list \<Rightarrow> nat" where
  "mathMax xs = foldr max xs 0"

definition getStartIndex :: "strategy \<Rightarrow> nat" where
  "getStartIndex s =
     (let periods1 = (case optChain s smaPeriods of None \<Rightarrow> [] | Some ps \<Rightarrow> ps);
          periods2 = periods1 @ (case optChain s emaPeriods of None \<Rightarrow> [] | Some ps \<Rightarrow> ps);
          periods3 = periods2 @ (case optChain s rsiConfig of
                                   None \<Rightarrow> []
                                 | Some cfg \<Rightarrow> [periodOr (rsiPeriod cfg) 14]);
          periods4 = periods3 @ (case optChain s bollingerConfig of
                                   None \<Rightarrow> []
                                 | Some cfg \<Rightarrow> [periodOr (bollingerPeriod cfg) 20])
      in mathMax periods4)"

section \<open>Evaluating conditions\<close>

text \<open>
  The local variables of \<open>evaluateExpression\<close> that the evaluated text can read:
  \<open>expression\<close>, \<open>indicatorValues\<close>, \<open>index\<close>, \<open>context\<close> and \<open>evalExpression\<close>, the
  substituted text that is evaluated.
\<close>

record evalLocals =
  localExpression :: string
  localIndicatorValues :: "(string \<times> ival) list"
  localIndex :: nat
  localContext :: "(string \<times> ival) list"
  localEvalExpression :: string

text \<open>
  What the interpreter takes from its JavaScript host: \<open>eval\<close>, applied to the locals
  of \<open>evaluateExpression\<close>, the interpreter and the current bar (its value is \<open>None\<close>
  when it throws, otherwise the truthiness of its value, and it leaves the interpreter
  and the bar as it has written them), and the conversion of a number to the text that
  \<open>String.prototype.replace\<close> inserts.
\<close>

record host =
  jsEval :: "evalLocals \<Rightarrow> interp \<Rightarrow> bar \<Rightarrow> bool option outcome"
  numToString :: "jsnum \<Rightarrow> string"

fun valueText :: "host \<Rightarrow> ival \<Rightarrow> string" where
  "valueText h Null = ''null''"
| "valueText h (Num x) = numToString h x"

text \<open>
  \<open>str.replace(new RegExp(key, 'g'), v)\<close> for a key without regular-expression
  metacharacters (every context key is a word of letters and digits): the text is
  scanned from the left, each match of the key is replaced and the scan goes on behind
  it. The empty pattern matches before every character and at the end. The inserted
  text is the text of a number or \<open>null\<close>, which has no replacement pattern in it.
\<close>

function replaceAll :: "string \<Rightarrow> string \<Rightarrow> string \<Rightarrow> string" where
  "replaceAll key v [] = (if key = [] then v else [])"
| "replaceAll key v (c # cs) =
     (if key = [] then v @ c # replaceAll key v cs
      else if take (length key) (c # cs) = key
           then v @ replaceAll key v (drop (length key) (c # cs))
           else c # replaceAll key v cs)"
  by pat_completeness auto
termination
  by (relation "measure (\<lambda>(key, v, str). length str)") auto

text \<open>
  The context object \<open>{ ...indicatorValues, price, high, low, open, index }\<close>: the
  indicator values in their order, then the five properties of the bar.
\<close>

definition buildContext :: "(string \<times> ival) list \<Rightarrow> bar \<Rightarrow> nat \<Rightarrow> (string \<times> ival) list" where
  "buildContext indicatorValues candle idx =
     AList.update ''index'' (Num (Fin (real idx)))
    (AList.update ''open'' (Num (openPrice candle))
    (AList.update ''low'' (Num (low candle))
    (AList.update ''high'' (Num (high candle))
    (AList.update ''price'' (Num (close candle)) indicatorValues))))"

text \<open>The loop over \<open>Object.keys(context)\<close>: one global replacement for each key, in order.\<close>

definition substituteContext :: "host \<Rightarrow> (string \<times> ival) list \<Rightarrow> string \<Rightarrow> string" where
  "substituteContext h context expression =
     foldl (\<lambda>evalExpression (key, v). replaceAll key (valueText h v) evalExpression)
           expression context"

text \<open>
  \<open>evaluateExpression(expression, indicatorValues, index)\<close> (the parameter \<open>index\<close> is
  \<open>idx\<close> here): the context is built from \<open>this.data[index]\<close> outside the \<open>try\<close> block, so
  a missing bar is a TypeError; the substituted text is evaluated; an exception of
  \<open>eval\<close> is caught and gives \<open>false\<close>, and what the text has written stays written.
\<close>

definition evaluateExpression ::
  "host \<Rightarrow> string \<Rightarrow> (string \<times> ival) list \<Rightarrow> interp \<Rightarrow> nat \<Rightarrow> error + bool outcome" where
  "evaluateExpression h expression indicatorValues ip idx =
     (case arrayGet (thisData ip) idx of
        None \<Rightarrow> Inl TypeError
      | Some candle \<Rightarrow>
          (let context = buildContext indicatorValues candle idx;
               evalExpression = substituteContext h context expression;
               out = jsEval h \<lparr>localExpression = expression,
                                localIndicatorValues = indicatorValues,
                                localIndex = idx, localContext = context,
                                localEvalExpression = evalExpression\<rparr> ip candle
           in Inr \<lparr>outcomeValue = (case outcomeValue out of None \<Rightarrow> False | Some b \<Rightarrow> b),
                   interpAfter = interpAfter out, barAfter = barAfter out\<rparr>))"

text \<open>
  \<open>evaluateCondition(condition, indicatorValues, index)\<close>; \<open>currentData\<close> is the bar
  object \<open>this.data[index]\<close> that the loop has read for this index.
\<close>

definition evaluateCondition ::
  "host \<Rightarrow> predicate option \<Rightarrow> (string \<times> ival) list \<Rightarrow> interp \<Rightarrow> bar \<Rightarrow> nat
     \<Rightarrow> error + bool outcome" where
  "evaluateCondition h condition indicatorValues ip currentData idx =
     (case condition of
        Some (Callable f) \<Rightarrow> f indicatorValues ip currentData idx
      | Some (Expression expression) \<Rightarrow> evaluateExpression h expression indicatorValues ip idx
      | _ \<Rightarrow> Inr \<lparr>outcomeValue = False, interpAfter = ip, barAfter = currentData\<rparr>)"

section \<open>The trade simulator\<close>

text \<open>
  The state of the loop of \<open>executeTradingLogic\<close>: the interpreter and the local
  variables \<open>inPosition\<close>, \<open>entryPrice\<close> and \<open>entryTime\<close>, which no condition can reach.
\<close>

record simState =
  interpreter :: interp
  inPosition :: bool
  entryPrice :: jsnum
  entryTime :: nat

definition buyStep :: "bar \<Rightarrow> nat \<Rightarrow> simState \<Rightarrow> simState" where
  "buyStep currentData i st =
     st\<lparr>interpreter := (interpreter st)
          \<lparr>thisTrades := thisTrades (interpreter st) @
             [\<lparr>tradeTime = time currentData, action = BUY, price = close currentData,
               index = i, profit = None, profitPercent = None\<rparr>],
           thisBuyMarkers := thisBuyMarkers (interpreter st) @
             [\<lparr>markerTime = time currentData, position = ''belowBar'', color = ''green'',
               shape = ''arrowUp'', markerText = ''Buy'', markerSize = 1\<rparr>]\<rparr>,
        inPosition := True,
        entryPrice := close currentData,
        entryTime := time currentData\<rparr>"

definition sellStep :: "bar \<Rightarrow> nat \<Rightarrow> simState \<Rightarrow> simState" where
  "sellStep currentData i st =
     st\<lparr>interpreter := (interpreter st)
          \<lparr>thisTrades := thisTrades (interpreter st) @
             [\<lparr>tradeTime = time currentData, action = SELL, price = close currentData,
               index = i,
               profit = Some (jsub (close currentData) (entryPrice st)),
               profitPercent = Some (jmul (jdiv (jsub (close currentData) (entryPrice st))
                                                (entryPrice st)) (Fin 100))\<rparr>],
           thisSellMarkers := thisSellMarkers (interpreter st) @
             [\<lparr>markerTime = time currentData, position = ''aboveBar'', color = ''red'',
               shape = ''arrowDown'', markerText = ''Sell'', markerSize = 1\<rparr>]\<rparr>,
        inPosition := False\<rparr>"

text \<open>
  The body of the loop at index \<open>i < this.data.length\<close>. The bar and the indicator values
  are read first. Reading \<open>strategy.conditions.buy\<close> (or \<open>.sell\<close>) throws a TypeError
  when the strategy has no \<open>conditions\<close>. The sell condition is evaluated only in a
  position, the buy condition only outside; the trade is pushed after the evaluation,
  onto the list as the condition has left it, from the bar as the condition has left
  it.
\<close>

definition tradingStep :: "host \<Rightarrow> strategy \<Rightarrow> nat \<Rightarrow> simState \<Rightarrow> error + simState" where
  "tradingStep h s i st =
     (let currentData = thisData (interpreter st) ! i;
          indicatorValues = getIndicatorValues (thisIndicators (interpreter st)) i
      in case conditions s of
           None \<Rightarrow> Inl TypeError
         | Some c \<Rightarrow>
             if \<not> inPosition st
             then (case evaluateCondition h (buy c) indicatorValues (interpreter st)
                          currentData i of
                     Inl e \<Rightarrow> Inl e
                   | Inr out \<Rightarrow>
                       Inr (if outcomeValue out
                            then buyStep (barAfter out) i (st\<lparr>interpreter := interpAfter out\<rparr>)
                            else st\<lparr>interpreter := interpAfter out\<rparr>))
             else (case evaluateCondition h (sell c) indicatorValues (interpreter st)
                          currentData i of
                     Inl e \<Rightarrow> Inl e
                   | Inr out \<Rightarrow>
                       Inr (if outcomeValue out
                            then sellStep (barAfter out) i (st\<lparr>interpreter := interpAfter out\<rparr>)
                            else st\<lparr>interpreter := interpAfter out\<rparr>)))"

text \<open>
  The loop \<open>for (i = startIndex; i < this.data.length; i++)\<close>. Its bound is read again
  at every turn, and a condition may have made the series longer: the loop need not
  end, and \<open>None\<close> is a run that does not.
\<close>

partial_function (option) tradingLoop ::
  "host \<Rightarrow> strategy \<Rightarrow> nat \<Rightarrow> simState \<Rightarrow> (error + simState) option" where
  "tradingLoop h s i st =
     (if i < length (thisData (interpreter st))
      then (case tradingStep h s i st of
              Inl e \<Rightarrow> Some (Inl e)
            | Inr st' \<Rightarrow> tradingLoop h s (Suc i) st')
      else Some (Inr st))"

definition initialState :: "interp \<Rightarrow> simState" where
  "initialState ip = \<lparr>interpreter = ip, inPosition = False, entryPrice = Fin 0, entryTime = 0\<rparr>"

definition executeTradingLogic :: "host \<Rightarrow> strategy \<Rightarrow> interp \<Rightarrow> (error + simState) option" where
  "executeTradingLogic h s ip = tradingLoop h s (getStartIndex s) (initialState ip)"

section \<open>Statistics\<close>

record stats =
  totalTrades :: nat
  buyTrades :: nat
  sellTrades :: nat
  wins :: nat
  losses :: nat
  totalProfit :: jsnum
  totalProfitPercent :: jsnum
  maxDrawdown :: jsnum
  winRate :: jsnum
  avgWin :: jsnum
  avgLoss :: jsnum

text \<open>
  One completed pair of \<open>calculateStatistics\<close>; the state of the loop is the statistics
  object and the local \<open>peak\<close>.
\<close>

definition pairStep :: "trade \<Rightarrow> trade \<Rightarrow> stats \<times> jsnum \<Rightarrow> stats \<times> jsnum" where
  "pairStep buyT sellT acc =
     (let st = fst acc; peak = snd acc;
          pr = jsub (price sellT) (price buyT);
          prPercent = jmul (jdiv (jsub (price sellT) (price buyT)) (price buyT)) (Fin 100);
          st1 = st\<lparr>totalProfit := jadd (totalProfit st) pr,
                   totalProfitPercent := jadd (totalProfitPercent st) prPercent\<rparr>;
          st2 = (if jgt pr (Fin 0)
                 then st1\<lparr>wins := wins st1 + 1, avgWin := jadd (avgWin st1) pr\<rparr>
                 else st1\<lparr>losses := losses st1 + 1, avgLoss := jadd (avgLoss st1) (jabs pr)\<rparr>);
          peak' = (if jgt (totalProfit st2) peak then totalProfit st2 else peak);
          currentDrawdown = jsub peak' (totalProfit st2);
          st3 = (if jgt currentDrawdown (maxDrawdown st2)
                 then st2\<lparr>maxDrawdown := currentDrawdown\<rparr> else st2)
      in (st3, peak'))"

text \<open>
  The loop \<open>for (i = 1; i < trades.length; i += 2)\<close> reads \<open>trades[i - 1]\<close> and
  \<open>trades[i]\<close>: it walks the log two trades at a time and stops at a single trailing
  trade.
\<close>

fun statsLoop :: "trade list \<Rightarrow> stats \<times> jsnum \<Rightarrow> stats \<times> jsnum" where
  "statsLoop (buyT # sellT # rest) acc =
     statsLoop rest (if action buyT = BUY \<and> action sellT = SELL
                     then pairStep buyT sellT acc else acc)"
| "statsLoop rest acc = acc"

definition calculateStatistics :: "trade list \<Rightarrow> stats" where
  "calculateStatistics ts =
     (let st0 = \<lparr>totalTrades = length ts,
                 buyTrades = length (filter (\<lambda>t. action t = BUY) ts),
                 sellTrades = length (filter (\<lambda>t. action t = SELL) ts),
                 wins = 0, losses = 0, totalProfit = Fin 0, totalProfitPercent = Fin 0,
                 maxDrawdown = Fin 0, winRate = Fin 0, avgWin = Fin 0, avgLoss = Fin 0\<rparr>;
          st = fst (statsLoop ts (st0, Fin 0))
      in st\<lparr>winRate := (if wins st + losses st > 0
                         then jmul (jdiv (Fin (real (wins st)))
                                         (Fin (real (wins st + losses st)))) (Fin 100)
                         else Fin 0),
            avgWin := (if wins st > 0 then jdiv (avgWin st) (Fin (real (wins st))) else Fin 0),
            avgLoss := (if losses st > 0 then jdiv (avgLoss st) (Fin (real (losses st)))
                        else Fin 0)\<rparr>)"

section \<open>Running a strategy\<close>

text \<open>
  The object returned by \<open>executeStrategy\<close>; its properties \<open>trades\<close>, \<open>buyMarkers\<close>,
  \<open>sellMarkers\<close> and \<open>stats\<close> carry the prefix \<open>result\<close> here.
\<close>

record backtestResult =
  resultTrades :: "trade list"
  resultBuyMarkers :: "marker list"
  resultSellMarkers :: "marker list"
  resultStats :: stats
  strategyName :: string

text \<open>
  \<open>executeStrategy\<close> resets the interpreter, so the run starts from empty lists;
  \<open>strategy.data || []\<close> and \<open>strategy.name || 'Custom Strategy'\<close> replace a falsy
  property (an absent one, or the empty name). The statistics and the result are read
  from the interpreter as the loop has left it.
\<close>

definition executeStrategy :: "host \<Rightarrow> strategy \<Rightarrow> (error + backtestResult) option" where
  "executeStrategy h s =
     (let data = (case dataField s of None \<Rightarrow> [] | Some d \<Rightarrow> d)
      in case calculateIndicators s data of
           Inl e \<Rightarrow> Some (Inl e)
         | Inr inds \<Rightarrow>
             (case executeTradingLogic h s
                     \<lparr>thisIndicators = inds, thisData = data, thisTrades = [],
                      thisBuyMarkers = [], thisSellMarkers = []\<rparr> of
                None \<Rightarrow> None
              | Some (Inl e) \<Rightarrow> Some (Inl e)
              | Some (Inr st) \<Rightarrow>
                  Some (Inr
                    \<lparr>resultTrades = thisTrades (interpreter st),
                     resultBuyMarkers = thisBuyMarkers (interpreter st),
                     resultSellMarkers = thisSellMarkers (interpreter st),
                     resultStats = calculateStatistics (thisTrades (interpreter st)),
                     strategyName = (case name s of
                                       None \<Rightarrow> ''Custom Strategy''
                                     | Some n \<Rightarrow> if n = [] then ''Custom Strategy'' else n)\<rparr>)))"

section \<open>Validating a strategy\<close>

text \<open>
  \<open>!strategy[field]\<close> for the three required fields: an absent property and the empty
  name are falsy, an object is truthy.
\<close>

definition fieldFalsy :: "strategy \<Rightarrow> string \<Rightarrow> bool" where
  "fieldFalsy s field =
     (if field = ''name'' then (case name s of None \<Rightarrow> True | Some n \<Rightarrow> n = [])
      else if field = ''indicators'' then indicators s = None
      else if field = ''conditions'' then conditions s = None
      else True)"

text \<open>Truthiness of a condition: absent and the empty expression are falsy.\<close>

fun predicateTruthy :: "predicate option \<Rightarrow> bool" where
  "predicateTruthy None = False"
| "predicateTruthy (Some (Expression e)) = (e \<noteq> [])"
| "predicateTruthy (Some p) = True"

text \<open>\<open>Array.prototype.join\<close>.\<close>

fun join :: "string \<Rightarrow> string list \<Rightarrow> string" where
  "join sep [] = []"
| "join sep [x] = x"
| "join sep (x # y # rest) = x @ sep @ join sep (y # rest)"

definition validateStrategy :: "strategy \<Rightarrow> error + bool" where
  "validateStrategy s =
     (let required = [''name'', ''indicators'', ''conditions''];
          missing = filter (\<lambda>field. fieldFalsy s field) required
      in if length missing > 0
         then Inl (Error (''Missing required fields: '' @ join '', '' missing))
         else (case conditions s of
                 None \<Rightarrow> Inl TypeError
               | Some c \<Rightarrow>
                   if \<not> predicateTruthy (buy c) \<or> \<not> predicateTruthy (sell c)
                   then Inl (Error ''Strategy must have both buy and sell conditions'')
                   else Inr True))"

section \<open>Properties of trade logs\<close>

text \<open>No two consecutive trades share the same action.\<close>

fun alternating :: "trade list \<Rightarrow> bool" where
  "alternating (x # y # rest) = (action x \<noteq> action y \<and> alternating (y # rest))"
| "alternating rest = True"



text \<open>The first trade of a log, if there is one, is a BUY.\<close>

fun startsWithBuy :: "trade list \<Rightarrow> bool" where
  "startsWithBuy [] = True"
| "startsWithBuy (t # rest) = (action t = BUY)"




text \<open>The trade log of a run that returns a result.\<close>

definition runLog :: "host \<Rightarrow> strategy \<Rightarrow> trade list option" where
  "runLog h s = (case executeStrategy h s of
                   Some (Inr r) \<Rightarrow> Some (resultTrades r)
                 | _ \<Rightarrow> None)"


section \<open>Properties of the statistics\<close>

text \<open>The profits of the completed pairs \<open>(trades[2k], trades[2k+1])\<close> of a log.\<close>

fun pairProfits :: "trade list \<Rightarrow> jsnum list" where
  "pairProfits (buyT # sellT # rest) = jsub (price sellT) (price buyT) # pairProfits rest"
| "pairProfits rest = []"

text \<open>A pair is a win when its profit is positive, and a loss otherwise.\<close>

definition isWin :: "jsnum \<Rightarrow> bool" where
  "isWin p = jgt p (Fin 0)"

text \<open>The mean of a list of numbers: their sum from the left, divided by their count.\<close>

definition mean :: "jsnum list \<Rightarrow> jsnum" where
  "mean xs = jdiv (foldl (\<lambda>a b. jadd a b) (Fin 0) xs) (Fin (real (length xs)))"

fun inPercentRange :: "jsnum \<Rightarrow> bool" where
  "inPercentRange (Fin r) = (0 \<le> r \<and> r \<le> 100)"
| "inPercentRange x = False"

section \<open>Properties of validation and of runs on an empty series\<close>

text \<open>The text \<open>msg\<close> contains the word \<open>w\<close>.\<close>

definition mentions :: "string \<Rightarrow> string \<Rightarrow> bool" where
  "mentions msg w = list_ex (\<lambda>i. take (length w) (drop i msg) = w) [0..<Suc (length msg)]"

text \<open>The strategy has a \<open>conditions\<close> object without a truthy \<open>buy\<close> or \<open>sell\<close>.\<close>

definition oneSided :: "strategy \<Rightarrow> bool" where
  "oneSided s = (case conditions s of
                   None \<Rightarrow> False
                 | Some c \<Rightarrow> \<not> predicateTruthy (buy c) \<or> \<not> predicateTruthy (sell c))"

text \<open>The strategy asks for at least one EMA period, or for the MACD.\<close>

definition requestsEmaOrMacd :: "strategy \<Rightarrow> bool" where
  "requestsEmaOrMacd s =
     ((case optChain s emaPeriods of Some (period # rest) \<Rightarrow> True | _ \<Rightarrow> False)
      \<or> (case optChain s macdConfig of Some cfg \<Rightarrow> True | None \<Rightarrow> False))"

text \<open>\<open>strategy.data\<close> is absent or the empty array.\<close>

definition emptySeries :: "strategy \<Rightarrow> bool" where
  "emptySeries s = (case dataField s of None \<Rightarrow> True | Some d \<Rightarrow> d = [])"

section \<open>Example inputs\<close>

definition noIndicators :: indicatorSpec where
  "noIndicators = \<lparr>smaPeriods = None, emaPeriods = None, rsiConfig = None, macdConfig = None,
                    bollingerConfig = None, volumeConfig = None\<rparr>"

text \<open>A condition function that returns the given value and writes nothing.\<close>

definition pureCondition ::
  "((string \<times> ival) list \<Rightarrow> bar list \<Rightarrow> nat \<Rightarrow> bool) \<Rightarrow> predicate" where
  "pureCondition f =
     Callable (\<lambda>values ip cur i.
       Inr \<lparr>outcomeValue = f values (thisData ip) i, interpAfter = ip, barAfter = cur\<rparr>)"

text \<open>A strategy whose two conditions are functions that always return \<open>true\<close>.\<close>

definition alwaysTrade :: "indicatorSpec \<Rightarrow> bar list option \<Rightarrow> strategy" where
  "alwaysTrade spec bars =
     \<lparr>name = Some ''always'', indicators = Some spec,
      conditions = Some \<lparr>buy = Some (pureCondition (\<lambda>values bars i. True)),
                         sell = Some (pureCondition (\<lambda>values bars i. True))\<rparr>,
      dataField = bars\<rparr>"

text \<open>
  A strategy that asks for the volume SMA and buys exactly when the indicator values
  it receives hold \<open>null\<close> under the key \<open>volumeSMA\<close>.
\<close>

definition nullProbe :: "nat \<Rightarrow> bar list \<Rightarrow> strategy" where
  "nullProbe period bars =
     \<lparr>name = Some ''probe'',
      indicators = Some (noIndicators\<lparr>volumeConfig := Some \<lparr>volumePeriod = Some period\<rparr>\<rparr>),
      conditions = Some \<lparr>buy = Some (pureCondition (\<lambda>values bars i.
                                  map_of values ''volumeSMA'' = Some Null)),
                         sell = Some (pureCondition (\<lambda>values bars i. False))\<rparr>,
      dataField = Some bars\<rparr>"

text \<open>
  A strategy that buys at once (a function that returns \<open>true\<close>) and whose sell
  condition is the given text.
\<close>

definition sellByText :: "indicatorSpec \<Rightarrow> string \<Rightarrow> bar list \<Rightarrow> strategy" where
  "sellByText spec expression bars =
     \<lparr>name = Some ''text'', indicators = Some spec,
      conditions = Some \<lparr>buy = Some (pureCondition (\<lambda>values bars i. True)),
                         sell = Some (Expression expression)\<rparr>,
      dataField = Some bars\<rparr>"

text \<open>A strategy whose buy condition is the given text and that never sells.\<close>

definition buyByText :: "indicatorSpec \<Rightarrow> string \<Rightarrow> bar list \<Rightarrow> strategy" where
  "buyByText spec expression bars =
     \<lparr>name = Some ''text'', indicators = Some spec,
      conditions = Some \<lparr>buy = Some (Expression expression),
                         sell = Some (pureCondition (\<lambda>values bars i. False))\<rparr>,
      dataField = Some bars\<rparr>"

text \<open>A request for the MACD with its default periods: \<open>macd: {}\<close>.\<close>

definition macdOnly :: indicatorSpec where
  "macdOnly = noIndicators\<lparr>macdConfig :=
                 Some \<lparr>fastPeriod = None, slowPeriod = None, signalPeriod = None\<rparr>\<rparr>"

text \<open>The decimal text of an integer, as JavaScript writes it.\<close>

definition integerText :: "jsnum \<Rightarrow> string" where
  "integerText x =
     (case x of
        Fin r \<Rightarrow> if real_of_int \<lfloor>r\<rfloor> \<noteq> r then ''?''
                 else if 0 \<le> r then showNat (nat \<lfloor>r\<rfloor>)
                 else ''-'' @ showNat (nat (- \<lfloor>r\<rfloor>))
      | PInf \<Rightarrow> ''Infinity''
      | NInf \<Rightarrow> ''-Infinity''
      | NaN \<Rightarrow> ''NaN'')"

text \<open>
  Two texts that write \<open>this.trades\<close>. The first appends the first trade of the log once
  more (\<open>push\<close> returns the new length, so the comparison is false); the second gives
  the first trade a \<open>profit\<close> property (the assignment has the value 1), and throws when
  there is no trade. Neither contains a context key, so the substitution leaves them as
  they are.
\<close>

definition pushText :: string where
  "pushText = ''this.trades.length > 0 && this.trades.push(this.trades[0]) < 0''"

definition profitText :: string where
  "profitText = ''(this.trades[0].profit = 1) < 0''"

text \<open>
  A host for the example runs: it writes integers in decimal digits, and its \<open>eval\<close>
  knows the two texts above and the comparison \<open>100 > 50\<close>, which is true and writes
  nothing; on every other text it throws here (as JavaScript does on \<open>0Signal > 50\<close>,
  which is no expression).
\<close>

definition exampleEval :: "evalLocals \<Rightarrow> interp \<Rightarrow> bar \<Rightarrow> bool option outcome" where
  "exampleEval locals ip cur =
     (if localEvalExpression locals = pushText
      then (case thisTrades ip of
              [] \<Rightarrow> \<lparr>outcomeValue = Some False, interpAfter = ip, barAfter = cur\<rparr>
            | t # ts \<Rightarrow>
                \<lparr>outcomeValue = Some False,
                 interpAfter = ip\<lparr>thisTrades := (t # ts) @ [t]\<rparr>, barAfter = cur\<rparr>)
      else if localEvalExpression locals = profitText
      then (case thisTrades ip of
              [] \<Rightarrow> \<lparr>outcomeValue = None, interpAfter = ip, barAfter = cur\<rparr>
            | t # ts \<Rightarrow>
                \<lparr>outcomeValue = Some False,
                 interpAfter = ip\<lparr>thisTrades := t\<lparr>profit := Some (Fin 1)\<rparr> # ts\<rparr>,
                 barAfter = cur\<rparr>)
      else if localEvalExpression locals = ''100 > 50''
      then \<lparr>outcomeValue = Some True, interpAfter = ip, barAfter = cur\<rparr>
      else \<lparr>outcomeValue = None, interpAfter = ip, barAfter = cur\<rparr>)"

definition textHost :: host where
  "textHost = \<lparr>jsEval = exampleEval, numToString = integerText\<rparr>"

text \<open>The log of one completed round trip followed by an open BUY.\<close>

definition roundTripLog :: "trade list" where
  "roundTripLog =
     [\<lparr>tradeTime = 0, action = BUY, price = Fin 100, index = 0,
       profit = None, profitPercent = None\<rparr>,
      \<lparr>tradeTime = 1, action = SELL, price = Fin 110, index = 1,
       profit = Some (Fin 10), profitPercent = Some (Fin 10)\<rparr>,
      \<lparr>tradeTime = 2, action = BUY, price = Fin 95, index = 2,
       profit = None, profitPercent = None\<rparr>]"

section \<open>C1: the MACD signal line\<close>

text \<open>
  C1. The claim: \<open>calculateMACD\<close> returns the MACD line \<open>EMA(fast) - EMA(slow)\<close>, the
  signal line as the EMA with the signal period over the MACD line treated as a
  close-price series, and the histogram as their difference. On the two closes 1 and 3
  with the periods 1, 3 and 1 the MACD line is \<open>[0, 1]\<close>, and its EMA with period 1 is
  \<open>[0, 1]\<close> again; the code returns the signal line \<open>[1, 3]\<close>, the EMA of the closes, and
  the histogram \<open>[-1, -2]\<close>.
\<close>

theorem calculateMACD_signal_from_closes:
  "calculateMACD [closeOnly (Fin 1), closeOnly (Fin 3)] 1 3 1 =
     Inr \<lparr>macd = [Fin 0, Fin 1], signal = [Fin 1, Fin 3],
          histogram = [Fin (- 1), Fin (- 2)]\<rparr>
   \<and> calculateEMA (map closeOnly [Fin 0, Fin 1]) 1 = Inr [Fin 0, Fin 1]"
  by (simp add: calculateMACD_def calculateEMA_def closeOnly_def jsub_def Let_def)

section \<open>C2: substitution of context keys\<close>

text \<open>
  C2. The claim: a context key is substituted only where it occurs as a whole
  identifier, so substituting a key never damages a longer identifier that begins with
  it. The loop replaces every match of the bare key. A request for the MACD gives the
  keys \<open>macd\<close>, \<open>macdSignal\<close> and \<open>macdHistogram\<close> in this order; on one bar that closes
  at 100 their values are 0, 100 and -100. The buy text \<open>macdSignal > 50\<close> reaches
  \<open>eval\<close> as \<open>0Signal > 50\<close>, which throws, so the run never buys; with the value of
  \<open>macdSignal\<close> in its place the text is \<open>100 > 50\<close>, which is true. In the same way
  \<open>sma50 > 1\<close> becomes \<open>100 > 1\<close> when \<open>sma5\<close> is 10.
\<close>

theorem substitution_corrupts_longer_key:
  "calculateIndicators (buyByText macdOnly ''macdSignal > 50'' [closeOnly (Fin 100)])
     [closeOnly (Fin 100)]
     = Inr [(''macd'', [Num (Fin 0)]), (''macdSignal'', [Num (Fin 100)]),
            (''macdHistogram'', [Num (Fin (- 100))])]
   \<and> substituteContext textHost
        (buildContext [(''macd'', Num (Fin 0)), (''macdSignal'', Num (Fin 100)),
                       (''macdHistogram'', Num (Fin (- 100)))] (closeOnly (Fin 100)) 0)
        ''macdSignal > 50'' = ''0Signal > 50''
   \<and> runLog textHost (buyByText macdOnly ''macdSignal > 50'' [closeOnly (Fin 100)]) = Some []
   \<and> substituteContext textHost
        (buildContext [(''macdSignal'', Num (Fin 100))] (closeOnly (Fin 100)) 0)
        ''macdSignal > 50'' = ''100 > 50''
   \<and> outcomeValue (jsEval textHost
          \<lparr>localExpression = ''macdSignal > 50'',
           localIndicatorValues = [(''macdSignal'', Num (Fin 100))], localIndex = 0,
           localContext = buildContext [(''macdSignal'', Num (Fin 100))] (closeOnly (Fin 100)) 0,
           localEvalExpression = ''100 > 50''\<rparr>
          \<lparr>thisIndicators = [], thisData = [closeOnly (Fin 100)], thisTrades = [],
           thisBuyMarkers = [], thisSellMarkers = []\<rparr> (closeOnly (Fin 100))) = Some True
   \<and> substituteContext textHost
        (buildContext [(''sma5'', Num (Fin 10)), (''sma50'', Num (Fin 20))] (closeOnly (Fin 7)) 0)
        ''sma50 > 1'' = ''100 > 1''"
  by (simp add: executeStrategy_def runLog_def alwaysTrade_def sellByText_def buyByText_def nullProbe_def
      pureCondition_def noIndicators_def macdOnly_def calculateIndicators_def
      addSMA_def addEMA_def addRSI_def addMACD_def addBollinger_def addVolume_def optChain_def
      calculateVolumeSMA_def calculateSMA_def calculateMACD_def calculateEMA_def periodOr_def
      executeTradingLogic_def getStartIndex_def mathMax_def initialState_def
      tradingLoop.simps tradingStep_def getIndicatorValues_def arrayGet_def
      evaluateCondition_def evaluateExpression_def substituteContext_def buildContext_def
      textHost_def exampleEval_def integerText_def pushText_def profitText_def
      buyStep_def sellStep_def closeOnly_def jsub_def Let_def)

section \<open>C3: warm-up values in the indicator context\<close>

text \<open>
  C3. The claim: \<open>getIndicatorValues(i)\<close> has an entry for a key exactly when the series
  holds a value other than the warm-up sentinel at \<open>i\<close>. The sentinel that the indicator
  functions push is \<open>null\<close>, and the test of \<open>getIndicatorValues\<close> is \<open>!== undefined\<close>: on a
  series of one bar the SMA with period 3 and the volume SMA with period 2 are \<open>[null]\<close>,
  and the context at index 0 holds the key with the value \<open>null\<close>. In a run with the
  volume SMA alone, which starts at index 0, the buy condition receives that \<open>null\<close>.
\<close>

theorem warmup_null_reaches_context:
  "getIndicatorValues [(''sma3'', calculateSMA [closeOnly (Fin 100)] 3)] 0 = [(''sma3'', Null)]
   \<and> calculateIndicators (nullProbe 2 [closeOnly (Fin 100)]) [closeOnly (Fin 100)]
     = Inr [(''volumeSMA'', [Null])]
   \<and> getIndicatorValues [(''volumeSMA'', [Null])] 0 = [(''volumeSMA'', Null)]
   \<and> (\<exists>r. executeStrategy textHost (nullProbe 2 [closeOnly (Fin 100)]) = Some (Inr r)
          \<and> map action (resultTrades r) = [BUY] \<and> map index (resultTrades r) = [0])"
  by (simp add: executeStrategy_def runLog_def alwaysTrade_def sellByText_def nullProbe_def pureCondition_def
      noIndicators_def macdOnly_def calculateIndicators_def
      addSMA_def addEMA_def addRSI_def addMACD_def addBollinger_def addVolume_def optChain_def
      calculateVolumeSMA_def calculateSMA_def calculateMACD_def calculateEMA_def periodOr_def
      executeTradingLogic_def getStartIndex_def mathMax_def initialState_def
      tradingLoop.simps tradingStep_def getIndicatorValues_def arrayGet_def
      evaluateCondition_def evaluateExpression_def substituteContext_def buildContext_def
      textHost_def exampleEval_def integerText_def pushText_def profitText_def
      buyStep_def sellStep_def closeOnly_def jsub_def Let_def)

section \<open>C4: the start index\<close>

text \<open>
  C4. The claim: the start index is the largest period among all requested indicators,
  MACD and volume SMA included. \<open>getStartIndex\<close> collects the periods of the SMA, EMA, RSI
  and Bollinger requests only: a strategy that asks for the volume SMA with period 20,
  or for the MACD with the periods 12, 26 and 9, starts at index 0 (an SMA with period
  20 starts at 20), and the run with the volume SMA trades at index 0.
\<close>

theorem start_index_skips_macd_and_volume:
  "getStartIndex (alwaysTrade (noIndicators\<lparr>volumeConfig := Some \<lparr>volumePeriod = Some 20\<rparr>\<rparr>)
                    (Some [closeOnly (Fin 100)])) = 0
   \<and> getStartIndex (alwaysTrade
        (noIndicators\<lparr>macdConfig := Some \<lparr>fastPeriod = Some 12, slowPeriod = Some 26,
                                           signalPeriod = Some 9\<rparr>\<rparr>)
        (Some [closeOnly (Fin 100)])) = 0
   \<and> getStartIndex (alwaysTrade (noIndicators\<lparr>smaPeriods := Some [20]\<rparr>)
                    (Some [closeOnly (Fin 100)])) = 20
   \<and> (\<exists>r. executeStrategy textHost
             (alwaysTrade (noIndicators\<lparr>volumeConfig := Some \<lparr>volumePeriod = Some 20\<rparr>\<rparr>)
                (Some [closeOnly (Fin 100)])) = Some (Inr r)
          \<and> map index (resultTrades r) = [0])"
  by (simp add: executeStrategy_def runLog_def alwaysTrade_def sellByText_def nullProbe_def pureCondition_def
      noIndicators_def macdOnly_def calculateIndicators_def
      addSMA_def addEMA_def addRSI_def addMACD_def addBollinger_def addVolume_def optChain_def
      calculateVolumeSMA_def calculateSMA_def calculateMACD_def calculateEMA_def periodOr_def
      executeTradingLogic_def getStartIndex_def mathMax_def initialState_def
      tradingLoop.simps tradingStep_def getIndicatorValues_def arrayGet_def
      evaluateCondition_def evaluateExpression_def substituteContext_def buildContext_def
      textHost_def exampleEval_def integerText_def pushText_def profitText_def
      buyStep_def sellStep_def closeOnly_def jsub_def Let_def)

section \<open>C5: the RSI of a flat series\<close>

lemma flat_change_not_positive: "\<not> jgt (jsub c c) (Fin 0)"
  by (cases c) (simp_all add: jsub_def)

lemma flat_change_not_negative: "\<not> jlt (jsub c c) (Fin 0)"
  by (cases c) (simp_all add: jsub_def jlt_def)

lemma flat_gains:
  assumes "\<forall>b \<in> set data. close b = c"
  shows "rsiGains data = replicate (length data - 1) (Fin 0)"
proof -
  have "rsiGains data = map (\<lambda>i. Fin 0) [1..<length data]"
    unfolding rsiGains_def
  proof (rule map_cong[OF refl])
    fix i assume "i \<in> set [1..<length data]"
    then have "i < length data" "i - 1 < length data" by auto
    then have "data ! i \<in> set data" "data ! (i - 1) \<in> set data"
      by (simp_all only: nth_mem)
    with assms have "close (data ! i) = c" "close (data ! (i - 1)) = c" by simp_all
    then show "(let change = jsub (close (data ! i)) (close (data ! (i - 1)))
                in if jgt change (Fin 0) then change else Fin 0) = Fin 0"
      by (simp add: flat_change_not_positive)
  qed
  then show ?thesis by (simp add: map_replicate_const)
qed

lemma flat_losses:
  assumes "\<forall>b \<in> set data. close b = c"
  shows "rsiLosses data = replicate (length data - 1) (Fin 0)"
proof -
  have "rsiLosses data = map (\<lambda>i. Fin 0) [1..<length data]"
    unfolding rsiLosses_def
  proof (rule map_cong[OF refl])
    fix i assume "i \<in> set [1..<length data]"
    then have "i < length data" "i - 1 < length data" by auto
    then have "data ! i \<in> set data" "data ! (i - 1) \<in> set data"
      by (simp_all only: nth_mem)
    with assms have "close (data ! i) = c" "close (data ! (i - 1)) = c" by simp_all
    then show "(let change = jsub (close (data ! i)) (close (data ! (i - 1)))
                in if jlt change (Fin 0) then jabs change else Fin 0) = Fin 0"
      by (simp add: flat_change_not_negative)
  qed
  then show ?thesis by (simp add: map_replicate_const)
qed

lemma sum_zeros: "foldl (\<lambda>a b. jadd a b) (Fin 0) (replicate m (Fin 0)) = Fin 0"
  by (induction m) simp_all

lemma rsiAverage_zeros:
  "0 < period \<Longrightarrow> rsiAverage (replicate m (Fin 0)) period i = Fin 0"
  by (simp add: rsiAverage_def slice_def sum_zeros)

lemma rsi_flat:
  assumes flat: "\<forall>b \<in> set data. close b = c"
    and p: "0 < period" and i: "period \<le> i" "i < length data"
  shows "rsiAverage (rsiGains data) period i = Fin 0"
    and "rsiAverage (rsiLosses data) period i = Fin 0"
    and "calculateRSI data period ! i = Num NaN"
proof -
  show g: "rsiAverage (rsiGains data) period i = Fin 0"
    by (simp add: flat_gains[OF flat] rsiAverage_zeros[OF p])
  show l: "rsiAverage (rsiLosses data) period i = Fin 0"
    by (simp add: flat_losses[OF flat] rsiAverage_zeros[OF p])
  show "calculateRSI data period ! i = Num NaN"
    using i by (simp add: calculateRSI_def Let_def g l jsub_def)
qed

text \<open>
  C5, the claim as stated: on a flat series the RSI with period 14 is the number 50
  after the warm-up. On fifteen bars that all close at 50 the value at index 14 is NaN.
\<close>

theorem rsi_flat_series_counterexample:
  "calculateRSI (replicate 15 (closeOnly (Fin 50))) 14 ! 14 = Num NaN
   \<and> calculateRSI (replicate 15 (closeOnly (Fin 50))) 14 ! 14 \<noteq> Num (Fin 50)"
proof -
  have "calculateRSI (replicate 15 (closeOnly (Fin 50))) 14 ! 14 = Num NaN"
    by (rule rsi_flat(3)[where c = "Fin 50"]) (simp_all add: closeOnly_def)
  then show ?thesis by simp
qed

text \<open>
  C5, as the code has it: on a series whose closes are all equal, the average gain and
  the average loss of the RSI with period 14 are 0 at every index from 14 on, and the
  RSI value there is NaN (the quotient \<open>0/0\<close> is not treated specially).
\<close>

theorem rsi_flat_series:
  assumes "\<forall>b \<in> set data. close b = c" and "14 \<le> i" and "i < length data"
  shows "rsiAverage (rsiGains data) 14 i = Fin 0
         \<and> rsiAverage (rsiLosses data) 14 i = Fin 0
         \<and> calculateRSI data 14 ! i = Num NaN"
  using rsi_flat[OF assms(1) _ assms(2,3)] by simp

theorem rsi_flat_series_witness:
  "map close (replicate 16 (closeOnly (Fin 50))) = replicate 16 (Fin 50)
   \<and> (14::nat) \<le> 15 \<and> 15 < length (replicate 16 (closeOnly (Fin 50)))
   \<and> rsiAverage (rsiGains (replicate 16 (closeOnly (Fin 50)))) 14 15 = Fin 0
   \<and> rsiAverage (rsiLosses (replicate 16 (closeOnly (Fin 50)))) 14 15 = Fin 0
   \<and> calculateRSI (replicate 16 (closeOnly (Fin 50))) 14 ! 15 = Num NaN"
proof -
  have h1: "\<forall>b \<in> set (replicate 16 (closeOnly (Fin 50))). close b = Fin 50"
    by (simp add: closeOnly_def)
  have h2: "(14::nat) \<le> 15" by simp
  have h3: "15 < length (replicate 16 (closeOnly (Fin 50)))" by simp
  have h0: "map close (replicate 16 (closeOnly (Fin 50))) = replicate 16 (Fin 50)"
    by (simp add: closeOnly_def)
  from rsi_flat_series[OF h1 h2 h3] h0 h2 h3 show ?thesis by blast
qed

section \<open>C6: the trade log alternates\<close>


























section \<open>C7: the profit fields of a trade\<close>




section \<open>C8: the statistics of an alternating log\<close>

lemma pairStep_wins:
  "wins (fst (pairStep b s acc)) =
     wins (fst acc) + (if isWin (jsub (price s) (price b)) then 1 else 0)"
  by (simp add: pairStep_def Let_def isWin_def)

lemma pairStep_losses:
  "losses (fst (pairStep b s acc)) =
     losses (fst acc) + (if isWin (jsub (price s) (price b)) then 0 else 1)"
  by (simp add: pairStep_def Let_def isWin_def)

lemma pairStep_avgWin:
  "avgWin (fst (pairStep b s acc)) =
     (if isWin (jsub (price s) (price b))
      then jadd (avgWin (fst acc)) (jsub (price s) (price b)) else avgWin (fst acc))"
  by (simp add: pairStep_def Let_def isWin_def)

lemma pairStep_avgLoss:
  "avgLoss (fst (pairStep b s acc)) =
     (if isWin (jsub (price s) (price b))
      then avgLoss (fst acc) else jadd (avgLoss (fst acc)) (jabs (jsub (price s) (price b))))"
  by (simp add: pairStep_def Let_def isWin_def)

lemma alternating_pair:
  assumes "alternating (b # s # rest)" "startsWithBuy (b # s # rest)"
  shows "action b = BUY" "action s = SELL" "alternating rest" "startsWithBuy rest"
proof -
  show b: "action b = BUY" using assms(2) by simp
  show s: "action s = SELL" using assms(1) b by (cases "action s") auto
  show "alternating rest" using assms(1) by (cases rest) auto
  show "startsWithBuy rest" using assms(1) s by (cases rest; cases "action (hd rest)") auto
qed

lemma statsLoop_fields:
  "alternating ts \<Longrightarrow> startsWithBuy ts \<Longrightarrow>
   wins (fst (statsLoop ts acc)) = wins (fst acc) + length (filter isWin (pairProfits ts))
   \<and> losses (fst (statsLoop ts acc))
       = losses (fst acc) + length (filter (\<lambda>p. \<not> isWin p) (pairProfits ts))
   \<and> avgWin (fst (statsLoop ts acc))
       = foldl (\<lambda>a b. jadd a b) (avgWin (fst acc)) (filter isWin (pairProfits ts))
   \<and> avgLoss (fst (statsLoop ts acc))
       = foldl (\<lambda>a b. jadd a b) (avgLoss (fst acc))
           (map jabs (filter (\<lambda>p. \<not> isWin p) (pairProfits ts)))"
proof (induction ts acc rule: statsLoop.induct)
  case (1 buyT sellT rest acc)
  note alt = alternating_pair[OF "1.prems"]
  have step: "statsLoop (buyT # sellT # rest) acc = statsLoop rest (pairStep buyT sellT acc)"
    using alt(1,2) by simp
  show ?case
    unfolding step using "1.IH"[OF alt(3,4)] alt(1,2)
    by (simp add: pairStep_wins pairStep_losses pairStep_avgWin pairStep_avgLoss)
qed simp_all

lemma length_pairProfits: "length (pairProfits ts) = length ts div 2"
  by (induction ts rule: pairProfits.induct) simp_all

lemma winRate_value:
  assumes "0 < n" "w \<le> n"
  shows "jmul (jdiv (Fin (real w)) (Fin (real n))) (Fin 100) = Fin (real w / real n * 100)"
    and "inPercentRange (Fin (real w / real n * 100))"
proof -
  from assms show "jmul (jdiv (Fin (real w)) (Fin (real n))) (Fin 100)
           = Fin (real w / real n * 100)" by simp
  define q where "q = real w / real n"
  have "q \<le> 1" using assms by (simp add: q_def divide_le_eq)
  then have "q * 100 \<le> 100" by simp
  moreover have "0 \<le> q" by (simp add: q_def)
  then have "0 \<le> q * 100" by simp
  ultimately show "inPercentRange (Fin (real w / real n * 100))"
    unfolding q_def
    by (simp only: inPercentRange.simps)
qed

text \<open>
  C8. For a log that alternates from a BUY, \<open>calculateStatistics\<close> counts one win or one
  loss for each completed pair, so \<open>wins + losses\<close> is half the length rounded down;
  \<open>winRate\<close> is \<open>wins / (wins + losses) * 100\<close>, a number between 0 and 100, and 0 without
  a completed pair; \<open>avgWin\<close> is 0 without a win and otherwise the mean of the winning
  profits; \<open>avgLoss\<close> is 0 without a loss and otherwise the mean of the absolute values
  of the other profits.
\<close>

theorem statistics_consistent:
  assumes "alternating ts" and "startsWithBuy ts"
  shows "wins (calculateStatistics ts) + losses (calculateStatistics ts) = length ts div 2
    \<and> wins (calculateStatistics ts) = length (filter isWin (pairProfits ts))
    \<and> losses (calculateStatistics ts) = length (filter (\<lambda>p. \<not> isWin p) (pairProfits ts))
    \<and> winRate (calculateStatistics ts)
        = (if length ts div 2 = 0 then Fin 0
           else Fin (real (wins (calculateStatistics ts))
                     / real (wins (calculateStatistics ts) + losses (calculateStatistics ts))
                     * 100))
    \<and> inPercentRange (winRate (calculateStatistics ts))
    \<and> avgWin (calculateStatistics ts)
        = (if wins (calculateStatistics ts) = 0 then Fin 0
           else mean (filter isWin (pairProfits ts)))
    \<and> avgLoss (calculateStatistics ts)
        = (if losses (calculateStatistics ts) = 0 then Fin 0
           else mean (map jabs (filter (\<lambda>p. \<not> isWin p) (pairProfits ts))))"
proof -
  define st0 where "st0 = \<lparr>totalTrades = length ts,
                 buyTrades = length (filter (\<lambda>t. action t = BUY) ts),
                 sellTrades = length (filter (\<lambda>t. action t = SELL) ts),
                 wins = 0, losses = 0, totalProfit = Fin 0, totalProfitPercent = Fin 0,
                 maxDrawdown = Fin 0, winRate = Fin 0, avgWin = Fin 0, avgLoss = Fin 0\<rparr>"
  define st where "st = fst (statsLoop ts (st0, Fin 0))"
  define ws where "ws = filter isWin (pairProfits ts)"
  define ls where "ls = filter (\<lambda>p. \<not> isWin p) (pairProfits ts)"
  from statsLoop_fields[OF assms, of "(st0, Fin 0)"]
  have w: "wins st = length ws" and l: "losses st = length ls"
    and aw: "avgWin st = foldl (\<lambda>a b. jadd a b) (Fin 0) ws"
    and al: "avgLoss st = foldl (\<lambda>a b. jadd a b) (Fin 0) (map jabs ls)"
    by (simp_all add: st_def st0_def ws_def ls_def)
  have total: "length ws + length ls = length ts div 2"
    unfolding ws_def ls_def by (simp add: sum_length_filter_compl length_pairProfits)
  have cw: "wins (calculateStatistics ts) = length ws"
    and cl: "losses (calculateStatistics ts) = length ls"
    by (simp_all add: calculateStatistics_def Let_def st_def[symmetric] st0_def[symmetric] w l)
  have rate: "winRate (calculateStatistics ts)
        = (if length ws + length ls > 0
           then jmul (jdiv (Fin (real (length ws))) (Fin (real (length ws + length ls))))
                     (Fin 100)
           else Fin 0)"
    by (simp add: calculateStatistics_def Let_def st_def[symmetric] st0_def[symmetric] w l)
  have cavgw: "avgWin (calculateStatistics ts) = (if length ws = 0 then Fin 0 else mean ws)"
    by (simp add: calculateStatistics_def Let_def st_def[symmetric] st0_def[symmetric] w l aw
                  mean_def)
  have cavgl: "avgLoss (calculateStatistics ts)
                 = (if length ls = 0 then Fin 0 else mean (map jabs ls))"
    by (simp add: calculateStatistics_def Let_def st_def[symmetric] st0_def[symmetric] w l al
                  mean_def)
  have rate2: "winRate (calculateStatistics ts)
        = (if length ts div 2 = 0 then Fin 0
           else Fin (real (length ws) / real (length ws + length ls) * 100))"
    and range: "inPercentRange (winRate (calculateStatistics ts))"
  proof -
    show "winRate (calculateStatistics ts)
        = (if length ts div 2 = 0 then Fin 0
           else Fin (real (length ws) / real (length ws + length ls) * 100))"
    proof (cases "length ws + length ls > 0")
      case True
      then show ?thesis unfolding rate
        using winRate_value(1)[OF True, of "length ws"] total by simp
    next
      case False
      then show ?thesis unfolding rate using total by simp
    qed
    show "inPercentRange (winRate (calculateStatistics ts))"
    proof (cases "length ws + length ls > 0")
      case True
      then show ?thesis unfolding rate
        using winRate_value[OF True, of "length ws"] by simp
    next
      case False
      then show ?thesis unfolding rate by simp
    qed
  qed
  show ?thesis
    unfolding cw cl using total rate2 range cavgw cavgl
    by (simp add: ws_def[symmetric] ls_def[symmetric] cw cl)
qed


theorem statistics_consistent_witness:
  "alternating roundTripLog \<and> startsWithBuy roundTripLog
   \<and> wins (calculateStatistics roundTripLog) + losses (calculateStatistics roundTripLog) = 1
   \<and> wins (calculateStatistics roundTripLog) = 1
   \<and> winRate (calculateStatistics roundTripLog) = Fin 100
   \<and> avgWin (calculateStatistics roundTripLog) = Fin 10
   \<and> avgLoss (calculateStatistics roundTripLog) = Fin 0"
proof -
  have alt: "alternating roundTripLog" and sb: "startsWithBuy roundTripLog"
    by (simp_all add: roundTripLog_def)
  have pp: "pairProfits roundTripLog = [Fin 10]"
    by (simp add: roundTripLog_def jsub_def)
  show ?thesis
    using statistics_consistent[OF alt sb] alt sb
    by (simp add: pp isWin_def mean_def)
qed

section \<open>C9: validation of a strategy\<close>

lemma mentionsI: "msg = a @ w @ b \<Longrightarrow> mentions msg w"
  unfolding mentions_def list_ex_iff
  by (rule bexI[of _ "length a"]) auto

lemma join_mentions: "w \<in> set xs \<Longrightarrow> \<exists>a b. join sep xs = a @ w @ b"
proof (induction sep xs rule: join.induct)
  case (1 sep)
  then show ?case by simp
next
  case (2 sep x)
  then have "join sep [x] = [] @ w @ []" by simp
  then show ?case by blast
next
  case (3 sep x y rest)
  show ?case
  proof (cases "w = x")
    case True
    then have "join sep (x # y # rest) = [] @ w @ (sep @ join sep (y # rest))" by simp
    then show ?thesis by blast
  next
    case False
    with "3.prems" have "w \<in> set (y # rest)" by simp
    from "3.IH"[OF this] obtain a b where "join sep (y # rest) = a @ w @ b" by blast
    then have "join sep (x # y # rest) = (x @ sep @ a) @ w @ b" by simp
    then show ?thesis by blast
  qed
qed

lemma missing_message_mentions:
  assumes "w \<in> set xs"
  shows "mentions (pre @ join sep xs) w"
proof -
  from join_mentions[OF assms] obtain a b where "join sep xs = a @ w @ b" by blast
  then have "pre @ join sep xs = (pre @ a) @ w @ b" by simp
  then show ?thesis by (rule mentionsI)
qed

text \<open>
  C9. \<open>validateStrategy\<close> throws exactly when one of the fields \<open>name\<close>, \<open>indicators\<close>
  and \<open>conditions\<close> is missing (absent, or falsy as the empty name is) or when
  \<open>conditions\<close> has no truthy \<open>buy\<close> or \<open>sell\<close>; otherwise it returns \<open>true\<close>; and whenever
  one of the three fields is missing, the message of the error names it. The function
  only reads its argument.
\<close>

theorem validateStrategy_errors:
  "(isl (validateStrategy s) \<longleftrightarrow>
      fieldFalsy s ''name'' \<or> fieldFalsy s ''indicators'' \<or> fieldFalsy s ''conditions''
      \<or> oneSided s)
   \<and> (\<not> isl (validateStrategy s) \<longrightarrow> validateStrategy s = Inr True)
   \<and> (\<forall>field \<in> set [''name'', ''indicators'', ''conditions''].
         fieldFalsy s field \<longrightarrow>
           (\<exists>msg. validateStrategy s = Inl (Error msg) \<and> mentions msg field))"
proof (intro conjI ballI impI)
  show "isl (validateStrategy s) \<longleftrightarrow>
      fieldFalsy s ''name'' \<or> fieldFalsy s ''indicators'' \<or> fieldFalsy s ''conditions''
      \<or> oneSided s"
    by (auto simp: validateStrategy_def oneSided_def fieldFalsy_def Let_def
             split: option.splits)
next
  assume "\<not> isl (validateStrategy s)"
  then show "validateStrategy s = Inr True"
    by (auto simp: validateStrategy_def Let_def split: option.splits if_splits)
next
  fix field
  assume mem: "field \<in> set [''name'', ''indicators'', ''conditions'']"
    and falsy: "fieldFalsy s field"
  define missing where
    "missing = filter (\<lambda>field. fieldFalsy s field) [''name'', ''indicators'', ''conditions'']"
  from mem falsy have inm: "field \<in> set missing"
    unfolding missing_def by (simp only: set_filter mem_Collect_eq)
  then have ne: "length missing > 0" by (cases missing) auto
  have "validateStrategy s = Inl (Error (''Missing required fields: '' @ join '', '' missing))"
    using ne unfolding validateStrategy_def missing_def[symmetric] Let_def by simp
  moreover have "mentions (''Missing required fields: '' @ join '', '' missing) field"
    using inm by (rule missing_message_mentions)
  ultimately show "\<exists>msg. validateStrategy s = Inl (Error msg) \<and> mentions msg field"
    by blast
qed

theorem validateStrategy_errors_witness:
  "fieldFalsy (alwaysTrade noIndicators None\<lparr>name := None\<rparr>) ''name''
   \<and> validateStrategy (alwaysTrade noIndicators None\<lparr>name := None\<rparr>)
        = Inl (Error ''Missing required fields: name'')
   \<and> isl (validateStrategy (alwaysTrade noIndicators None\<lparr>name := None\<rparr>))
   \<and> mentions ''Missing required fields: name'' ''name''
   \<and> \<not> isl (validateStrategy (alwaysTrade noIndicators None))
   \<and> validateStrategy (alwaysTrade noIndicators None) = Inr True"
proof -
  have f: "fieldFalsy (alwaysTrade noIndicators None\<lparr>name := None\<rparr>) ''name''"
    by (simp add: fieldFalsy_def alwaysTrade_def)
  have v: "validateStrategy (alwaysTrade noIndicators None\<lparr>name := None\<rparr>)
        = Inl (Error ''Missing required fields: name'')"
    by (simp add: validateStrategy_def fieldFalsy_def alwaysTrade_def pureCondition_def Let_def)
  have ok: "\<not> isl (validateStrategy (alwaysTrade noIndicators None))"
    by (simp add: validateStrategy_def fieldFalsy_def alwaysTrade_def pureCondition_def Let_def)
  from validateStrategy_errors[of "alwaysTrade noIndicators None\<lparr>name := None\<rparr>"] f v
  have m: "mentions ''Missing required fields: name'' ''name''" by simp
  from validateStrategy_errors[of "alwaysTrade noIndicators None"] ok
  have t: "validateStrategy (alwaysTrade noIndicators None) = Inr True" by blast
  show ?thesis using f v m ok t by simp
qed

section \<open>C10: a run on an empty series\<close>

lemma calculateEMA_empty: "calculateEMA [] period = Inl TypeError"
  by (simp add: calculateEMA_def)

lemma calculateMACD_empty: "calculateMACD [] f sl sg = Inl TypeError"
  by (simp add: calculateMACD_def calculateEMA_empty)

lemma addEMA_empty:
  "addEMA s [] inds =
     (case optChain s emaPeriods of
        Some (period # rest) \<Rightarrow> Inl TypeError
      | _ \<Rightarrow> Inr inds)"
  by (simp add: addEMA_def calculateEMA_empty split: option.splits list.splits)

lemma addMACD_empty:
  "addMACD s [] inds =
     (case optChain s macdConfig of Some cfg \<Rightarrow> Inl TypeError | None \<Rightarrow> Inr inds)"
  by (simp add: addMACD_def calculateMACD_empty split: option.splits)

lemma calculateIndicators_empty:
  "calculateIndicators s [] =
     (if requestsEmaOrMacd s then Inl TypeError
      else Inr (addVolume s [] (addBollinger s [] (addRSI s [] (addSMA s [] [])))))"
  by (auto simp: calculateIndicators_def requestsEmaOrMacd_def addEMA_empty addMACD_empty
           split: option.splits list.splits)

lemma executeTradingLogic_empty:
  "thisData ip = [] \<Longrightarrow> executeTradingLogic h s ip = Some (Inr (initialState ip))"
  by (simp add: executeTradingLogic_def tradingLoop.simps initialState_def)

text \<open>
  C10. On an empty series (\<open>strategy.data\<close> absent or \<open>[]\<close>), \<open>executeStrategy\<close> throws a
  TypeError when the strategy asks for an EMA period or for the MACD, since
  \<open>calculateEMA\<close> reads the close of the first bar; without such a request it returns a
  result with no trade.
\<close>

theorem empty_series_run:
  assumes "emptySeries s"
  shows "if requestsEmaOrMacd s then executeStrategy h s = Some (Inl TypeError)
         else (\<exists>r. executeStrategy h s = Some (Inr r) \<and> resultTrades r = [])"
proof -
  from assms have d: "(case dataField s of None \<Rightarrow> [] | Some d \<Rightarrow> d) = []"
    by (simp add: emptySeries_def split: option.splits)
  show ?thesis
    by (simp add: executeStrategy_def Let_def d calculateIndicators_empty
                  executeTradingLogic_empty initialState_def)
qed

theorem empty_series_run_witness:
  "emptySeries (alwaysTrade (noIndicators\<lparr>emaPeriods := Some [10]\<rparr>) None)
   \<and> requestsEmaOrMacd (alwaysTrade (noIndicators\<lparr>emaPeriods := Some [10]\<rparr>) None)
   \<and> executeStrategy textHost (alwaysTrade (noIndicators\<lparr>emaPeriods := Some [10]\<rparr>) None)
       = Some (Inl TypeError)
   \<and> emptySeries (alwaysTrade (noIndicators\<lparr>smaPeriods := Some [10]\<rparr>) (Some []))
   \<and> \<not> requestsEmaOrMacd (alwaysTrade (noIndicators\<lparr>smaPeriods := Some [10]\<rparr>) (Some []))
   \<and> (\<exists>r. executeStrategy textHost
             (alwaysTrade (noIndicators\<lparr>smaPeriods := Some [10]\<rparr>) (Some [])) = Some (Inr r)
          \<and> resultTrades r = [])"
proof -
  have e1: "emptySeries (alwaysTrade (noIndicators\<lparr>emaPeriods := Some [10]\<rparr>) None)"
    and e2: "emptySeries (alwaysTrade (noIndicators\<lparr>smaPeriods := Some [10]\<rparr>) (Some []))"
    by (simp_all add: emptySeries_def alwaysTrade_def)
  have r1: "requestsEmaOrMacd (alwaysTrade (noIndicators\<lparr>emaPeriods := Some [10]\<rparr>) None)"
    and r2: "\<not> requestsEmaOrMacd
                (alwaysTrade (noIndicators\<lparr>smaPeriods := Some [10]\<rparr>) (Some []))"
    by (simp_all add: requestsEmaOrMacd_def alwaysTrade_def noIndicators_def optChain_def)
  show ?thesis
    using empty_series_run[OF e1, of textHost] empty_series_run[OF e2, of textHost] e1 e2 r1 r2
    by simp
qed

end
